theory Spec2Isabelle
  imports Main
begin

section \<open>The presentation layer of the Minesweeper game (run.py)\<close>

text \<open>
  The module \<open>run.py\<close> owns the renderer, the input controller and the game object. It
  reads and writes the attributes of the module \<open>config\<close> and drives a \<open>Board\<close> from
  the module \<open>components\<close>. Neither of the two modules is part of the sources at hand, so
  the attributes of \<open>config\<close> are the fields of a record whose values are arbitrary, and
  the constructor and the methods of \<open>Board\<close> are the fields of a record of functions
  over an arbitrary type of boards. The same record holds \<open>pygame.display.set_mode\<close>, the
  one call into pygame whose result the game keeps and whose failure it does not handle.
\<close>

subsection \<open>Data\<close>

text \<open>
  The attributes of \<open>config\<close> that \<open>InputController\<close> and \<open>Game\<close> use. The method
  \<open>set_difficulty\<close> assigns \<open>cols\<close>, \<open>rows\<close>, \<open>num_mines\<close>, \<open>width\<close>, \<open>height\<close> and
  \<open>display_dimension\<close>; the others are only read.
\<close>

record config =
  margin_left :: int
  margin_right :: int
  margin_top :: int
  margin_bottom :: int
  cell_size :: int
  cols :: int
  rows :: int
  num_mines :: int
  width :: int
  height :: int
  display_dimension :: "int \<times> int"
  highlight_duration_ms :: int
  mouse_left :: int
  mouse_right :: int
  mouse_middle :: int

text \<open>
  The exceptions that leave a method of the module: \<open>ZeroDivisionError\<close> from Python's
  \<open>//\<close>, and \<open>pygame.error\<close> from \<open>pygame.display.set_mode\<close>. Nothing in the module
  catches either.
\<close>

datatype error = ZeroDivisionError | PygameError

text \<open>
  What the module calls on a \<open>Board\<close>: the constructor \<open>Board(cols, rows, mines)\<close>, the
  attributes \<open>cols\<close>, \<open>rows\<close>, \<open>game_over\<close> and \<open>win\<close>, the methods \<open>reveal\<close>,
  \<open>toggle_flag\<close>, \<open>neighbors\<close>, \<open>flagged_count\<close> and \<open>get_hint_coordinates\<close>, and the
  read \<open>board.cells[board.index(c, r)].state.is_revealed\<close>, here \<open>is_revealed\<close>. The
  methods that mutate the board return the board they leave behind. Whatever the board
  draws at random is part of the function given for \<open>new_board\<close>.

  \<open>set_mode\<close> is \<open>pygame.display.set_mode\<close>: from the size of the display surface there
  is and the requested size it either raises or returns the size of the display surface
  there is afterwards, which need not be the requested one.
\<close>

record 'b board_ops =
  new_board :: "int \<Rightarrow> int \<Rightarrow> int \<Rightarrow> 'b"
  board_cols :: "'b \<Rightarrow> int"
  board_rows :: "'b \<Rightarrow> int"
  game_over :: "'b \<Rightarrow> bool"
  win :: "'b \<Rightarrow> bool"
  reveal :: "'b \<Rightarrow> int \<Rightarrow> int \<Rightarrow> 'b"
  toggle_flag :: "'b \<Rightarrow> int \<Rightarrow> int \<Rightarrow> 'b"
  neighbors :: "'b \<Rightarrow> int \<Rightarrow> int \<Rightarrow> (int \<times> int) list"
  is_revealed :: "'b \<Rightarrow> int \<Rightarrow> int \<Rightarrow> bool"
  flagged_count :: "'b \<Rightarrow> int"
  get_hint_coordinates :: "'b \<Rightarrow> (int \<times> int) option"
  set_mode :: "int \<times> int \<Rightarrow> int \<times> int \<Rightarrow> error + int \<times> int"

text \<open>
  The attributes of a \<open>Game\<close>, together with the module \<open>config\<close> it writes to. The
  field \<open>screen\<close> is the size of the surface that \<open>pygame.display.set_mode\<close> returned.
  The renderer's \<open>board\<close> is assigned wherever the game's is, to the same object, and is
  not kept apart.
\<close>

record 'b game =
  cfg :: config
  screen :: "int \<times> int"
  board :: 'b
  highlight_targets :: "(int \<times> int) set"
  highlight_until_ms :: int
  started :: bool
  start_ticks_ms :: int
  end_ticks_ms :: int

subsection \<open>InputController\<close>

text \<open>
  \<open>pos_to_grid\<close>, lines 115 to 125. Python's \<open>//\<close> rounds down, as \<open>div\<close> on \<open>int\<close>
  does, and raises where the divisor is zero.
\<close>

definition pos_to_grid :: "'b board_ops \<Rightarrow> 'b game \<Rightarrow> int \<Rightarrow> int \<Rightarrow> error + (int \<times> int)" where
  "pos_to_grid ops g x y =
     (let c = cfg g in
      if \<not> (margin_left c \<le> x \<and> x < width c - margin_right c) then Inr (- 1, - 1)
      else if \<not> (margin_top c \<le> y \<and> y < height c - margin_bottom c) then Inr (- 1, - 1)
      else if cell_size c = 0 then Inl ZeroDivisionError
      else
        let col = (x - margin_left c) div cell_size c;
            row = (y - margin_top c) div cell_size c
        in if 0 \<le> col \<and> col < board_cols ops (board g) \<and> 0 \<le> row \<and> row < board_rows ops (board g)
           then Inr (col, row)
           else Inr (- 1, - 1))"

text \<open>
  \<open>handle_mouse\<close>, lines 127 to 157. \<open>now\<close> is what \<open>pygame.time.get_ticks()\<close> returns
  during the call; each path reads the clock at most once.
\<close>

definition handle_mouse ::
  "'b board_ops \<Rightarrow> int \<Rightarrow> int \<times> int \<Rightarrow> int \<Rightarrow> 'b game \<Rightarrow> error + 'b game" where
  "handle_mouse ops now pos button g =
     (case pos_to_grid ops g (fst pos) (snd pos) of
        Inl e \<Rightarrow> Inl e
      | Inr (col, row) \<Rightarrow>
          if col = - 1 then Inr g
          else if button = mouse_left (cfg g) then
            (let g1 = g\<lparr>highlight_targets := {}\<rparr>;
                 g2 = (if \<not> started g1 then g1\<lparr>started := True, start_ticks_ms := now\<rparr> else g1)
             in Inr (g2\<lparr>board := reveal ops (board g2) col row\<rparr>))
          else if button = mouse_right (cfg g) then
            (let g1 = g\<lparr>highlight_targets := {}\<rparr>
             in Inr (g1\<lparr>board := toggle_flag ops (board g1) col row\<rparr>))
          else if button = mouse_middle (cfg g) then
            (let nbs = neighbors ops (board g) col row;
                 g1 = g\<lparr>highlight_targets :=
                         set (filter (\<lambda>(nc, nr). \<not> is_revealed ops (board g) nc nr) nbs)\<rparr>
             in Inr (g1\<lparr>highlight_until_ms := now + highlight_duration_ms (cfg g1)\<rparr>))
          else Inr g)"

subsection \<open>Game\<close>

text \<open>\<open>reset\<close>, lines 176 to 184.\<close>

definition reset :: "'b board_ops \<Rightarrow> 'b game \<Rightarrow> 'b game" where
  "reset ops g =
     g\<lparr>board := new_board ops (cols (cfg g)) (rows (cfg g)) (num_mines (cfg g)),
       highlight_targets := {},
       highlight_until_ms := 0,
       started := False,
       start_ticks_ms := 0,
       end_ticks_ms := 0\<rparr>"

text \<open>
  \<open>set_difficulty\<close>, lines 187 to 198. The call of \<open>set_mode\<close> on line 196 comes after
  the assignments to \<open>config\<close> and before \<open>reset\<close>. If it raises, the exception leaves
  the method there: the result \<open>Inl\<close> holds the exception and the game as it is at that
  moment, with \<open>config\<close> updated and nothing else changed. If it returns, \<open>screen\<close> is
  the surface it returned.
\<close>

definition set_difficulty ::
  "'b board_ops \<Rightarrow> int \<Rightarrow> int \<Rightarrow> int \<Rightarrow> 'b game \<Rightarrow> (error \<times> 'b game) + 'b game" where
  "set_difficulty ops c r m g =
     (let c1 = (cfg g)\<lparr>cols := c, rows := r, num_mines := m\<rparr>;
          c2 = c1\<lparr>width := margin_left c1 + cols c1 * cell_size c1 + margin_right c1\<rparr>;
          c3 = c2\<lparr>height := margin_top c2 + rows c2 * cell_size c2 + margin_bottom c2\<rparr>;
          c4 = c3\<lparr>display_dimension := (width c3, height c3)\<rparr>;
          g1 = g\<lparr>cfg := c4\<rparr>
      in case set_mode ops (screen g1) (display_dimension c4) of
           Inl e \<Rightarrow> Inl (e, g1)
         | Inr surface \<Rightarrow> Inr (reset ops (g1\<lparr>screen := surface\<rparr>)))"

text \<open>
  \<open>_elapsed_ms\<close>, lines 200 to 206. An integer is false in a condition exactly when it is
  zero. \<open>now\<close> is the clock read on the last line.
\<close>

definition elapsed_ms :: "int \<Rightarrow> 'b game \<Rightarrow> int" where
  "elapsed_ms now g =
     (if \<not> started g then 0
      else if end_ticks_ms g \<noteq> 0 then end_ticks_ms g - start_ticks_ms g
      else now - start_ticks_ms g)"

text \<open>
  \<open>_format_time\<close>, lines 208 to 214: \<open>f"{minutes:02d}:{seconds:02d} ({total_seconds}s)"\<close>.
  \<open>str_nat\<close> is the decimal numeral of a natural number, \<open>str_int\<close> is Python's \<open>str\<close>
  on an integer, and \<open>fmt_02d\<close> is the format \<open>02d\<close>: the width 2 counts the sign, so
  only a non-negative number below ten gets a zero in front.
\<close>

fun str_nat :: "nat \<Rightarrow> string" where
  "str_nat n =
     (if n < 10 then [''0123456789'' ! n]
      else str_nat (n div 10) @ [''0123456789'' ! (n mod 10)])"

declare str_nat.simps [simp del]

definition str_int :: "int \<Rightarrow> string" where
  "str_int i = (if i < 0 then CHR ''-'' # str_nat (nat (- i)) else str_nat (nat i))"

definition fmt_02d :: "int \<Rightarrow> string" where
  "fmt_02d i = (if 0 \<le> i \<and> i < 10 then CHR ''0'' # str_int i else str_int i)"

definition format_time :: "int \<Rightarrow> string" where
  "format_time ms =
     (let total_seconds = ms div 1000;
          minutes = total_seconds div 60;
          seconds = total_seconds mod 60
      in fmt_02d minutes @ '':'' @ fmt_02d seconds @ '' ('' @ str_int total_seconds @ ''s)'')"

text \<open>\<open>_result_text\<close>, lines 216 to 222.\<close>

definition result_text :: "'b board_ops \<Rightarrow> 'b game \<Rightarrow> string option" where
  "result_text ops g =
     (if game_over ops (board g) then Some ''GAME OVER''
      else if win ops (board g) then Some ''GAME CLEAR''
      else None)"

text \<open>
  What one call of \<open>draw\<close> hands to the renderer: the three arguments of \<open>draw_header\<close>,
  the arguments of the calls of \<open>draw_cell\<close> in the order of the calls, and the argument
  of \<open>draw_result_overlay\<close>. What the renderer paints from them is pygame's work.
\<close>

record frame =
  remaining_mines :: int
  time_text :: string
  difficulty_text :: string
  cells_drawn :: "(int \<times> int \<times> bool) list"
  overlay_text :: "string option"

text \<open>
  The clock as one call of \<open>run_step\<close> reads it after the events: on line 277 (only when
  the condition of line 276 holds), on line 226, on line 206 (called from line 230, only
  when the game runs) and on line 242.
\<close>

record ticks =
  tick_end :: int
  tick_expire :: int
  tick_elapsed :: int
  tick_cells :: int

text \<open>
  \<open>draw\<close>, lines 224 to 248. A set is true in a condition exactly when it is not empty.
  \<open>range(n)\<close> runs over \<open>0, ..., n - 1\<close> and is empty for \<open>n \<le> 0\<close>, as \<open>[0..n - 1]\<close> is.
\<close>

definition draw :: "'b board_ops \<Rightarrow> ticks \<Rightarrow> 'b game \<Rightarrow> 'b game \<times> frame" where
  "draw ops tk g =
     (let g1 = (if tick_expire tk > highlight_until_ms g \<and> highlight_targets g \<noteq> {}
                then g\<lparr>highlight_targets := {}\<rparr> else g);
          remaining = max 0 (num_mines (cfg g1) - flagged_count ops (board g1));
          time_text = format_time (elapsed_ms (tick_elapsed tk) g1);
          diff_text = (if board_cols ops (board g1) = 9 then ''EASY''
                       else if board_cols ops (board g1) = 16 then ''NORMAL''
                       else ''HARD'');
          now = tick_cells tk;
          cells = concat (map (\<lambda>r. map (\<lambda>c.
                     (c, r, now \<le> highlight_until_ms g1 \<and> (c, r) \<in> highlight_targets g1))
                     [0..board_cols ops (board g1) - 1])
                   [0..board_rows ops (board g1) - 1])
      in (g1, \<lparr>remaining_mines = remaining, time_text = time_text,
               difficulty_text = diff_text, cells_drawn = cells,
               overlay_text = result_text ops g1\<rparr>))"

text \<open>
  The events that \<open>run_step\<close> tells apart, and the keys among them. pygame's constants
  for event types and for keys are pairwise different.
\<close>

datatype key = K_r | K_1 | K_2 | K_3 | K_h | K_other

datatype event = QUIT | KEYDOWN key | MOUSEBUTTONDOWN "int \<times> int" int | OTHER

text \<open>
  The branch for \<open>KEYDOWN\<close> in \<open>run_step\<close>, lines 256 to 273. A tuple of two numbers is
  true in a condition and \<open>None\<close> is false. An exception of \<open>set_difficulty\<close> leaves
  \<open>run_step\<close> and \<open>main\<close> as well, and with them the program.
\<close>

definition handle_keydown :: "'b board_ops \<Rightarrow> int \<Rightarrow> key \<Rightarrow> 'b game \<Rightarrow> error + 'b game" where
  "handle_keydown ops now k g =
     (case k of
        K_r \<Rightarrow> Inr (reset ops g)
      | K_1 \<Rightarrow>
          (case set_difficulty ops 9 9 10 g of
             Inl (e, g') \<Rightarrow> Inl e
           | Inr g' \<Rightarrow> Inr (reset ops g'))
      | K_2 \<Rightarrow>
          (case set_difficulty ops 16 16 40 g of
             Inl (e, g') \<Rightarrow> Inl e
           | Inr g' \<Rightarrow> Inr (reset ops g'))
      | K_3 \<Rightarrow>
          (case set_difficulty ops 24 24 99 g of
             Inl (e, g') \<Rightarrow> Inl e
           | Inr g' \<Rightarrow> Inr (reset ops g'))
      | K_h \<Rightarrow>
          (case get_hint_coordinates ops (board g) of
             None \<Rightarrow> Inr g
           | Some hint_coord \<Rightarrow>
               Inr (g\<lparr>highlight_targets := {hint_coord},
                      highlight_until_ms := now + highlight_duration_ms (cfg g)\<rparr>))
      | K_other \<Rightarrow> Inr g)"

text \<open>
  The loop over the pending events, lines 252 to 275. Each event comes with what the clock
  reads while it is handled. The result \<open>False\<close> is the early \<open>return False\<close> at \<open>QUIT\<close>:
  the events after it are not looked at. An exception of a handler ends the loop.
\<close>

fun process_events ::
  "'b board_ops \<Rightarrow> (event \<times> int) list \<Rightarrow> 'b game \<Rightarrow> error + (bool \<times> 'b game)" where
  "process_events ops [] g = Inr (True, g)"
| "process_events ops ((QUIT, now) # evs) g = Inr (False, g)"
| "process_events ops ((KEYDOWN k, now) # evs) g =
     (case handle_keydown ops now k g of
        Inl e \<Rightarrow> Inl e
      | Inr g' \<Rightarrow> process_events ops evs g')"
| "process_events ops ((MOUSEBUTTONDOWN pos button, now) # evs) g =
     (case handle_mouse ops now pos button g of
        Inl e \<Rightarrow> Inl e
      | Inr g' \<Rightarrow> process_events ops evs g')"
| "process_events ops ((OTHER, now) # evs) g = process_events ops evs g"

text \<open>The condition of line 276 and the statement it guards, lines 276 and 277.\<close>

definition end_condition :: "'b board_ops \<Rightarrow> 'b game \<Rightarrow> bool" where
  "end_condition ops g \<longleftrightarrow>
     (game_over ops (board g) \<or> win ops (board g)) \<and> started g \<and> \<not> end_ticks_ms g \<noteq> 0"

definition end_check :: "'b board_ops \<Rightarrow> int \<Rightarrow> 'b game \<Rightarrow> 'b game" where
  "end_check ops now g = (if end_condition ops g then g\<lparr>end_ticks_ms := now\<rparr> else g)"

text \<open>
  \<open>run_step\<close>, lines 250 to 280: the events, the end check, the frame. The result holds
  the returned truth value, the game as the call leaves it, and the frame if one was
  drawn. \<open>clock.tick\<close> only waits.
\<close>

definition run_step ::
  "'b board_ops \<Rightarrow> (event \<times> int) list \<Rightarrow> ticks \<Rightarrow> 'b game
     \<Rightarrow> error + (bool \<times> 'b game \<times> frame option)" where
  "run_step ops evs tk g =
     (case process_events ops evs g of
        Inl e \<Rightarrow> Inl e
      | Inr (False, g1) \<Rightarrow> Inr (False, g1, None)
      | Inr (True, g1) \<Rightarrow>
          (let g2 = end_check ops (tick_end tk) g1;
               (g3, fr) = draw ops tk g2
           in Inr (True, g3, Some fr)))"

text \<open>
  The loop of \<open>main\<close>, lines 286 to 288, over the events and clock readings of finitely
  many frames. The truth value is \<open>running\<close> after the last of them.
\<close>

fun main_loop ::
  "'b board_ops \<Rightarrow> ((event \<times> int) list \<times> ticks) list \<Rightarrow> 'b game \<Rightarrow> error + (bool \<times> 'b game)" where
  "main_loop ops [] g = Inr (True, g)"
| "main_loop ops ((evs, tk) # ins) g =
     (case run_step ops evs tk g of
        Inl e \<Rightarrow> Inl e
      | Inr (False, g', fr) \<Rightarrow> Inr (False, g')
      | Inr (True, g', fr) \<Rightarrow> main_loop ops ins g')"

subsection \<open>A board to run the game on\<close>

text \<open>
  Modelled from the spec: the class \<open>Board\<close> of the module \<open>components\<close> is not among the
  sources. \<open>simple_ops\<close> has the interface of the Grid Model contract of the specification
  (its sections on the data model and on the external interfaces): a constructor from the
  columns, the rows and the mine count, \<open>reveal\<close>, \<open>toggle_flag\<close>, \<open>neighbors\<close>,
  \<open>flagged_count\<close>, \<open>get_hint_coordinates\<close>, the revealed state of a cell, and the flags
  \<open>game_over\<close> and \<open>win\<close>. The rules of the grid (where the mines are, the flood of a
  reveal, when the game is won or lost) are outside the specification. This board has its
  mines in the first cells of the top row, reveals the one cell and loses the game if a
  mine is there, toggles the one flag, and keeps \<open>win\<close> and the hint as plain fields. It
  is the board of the concrete runs below and of nothing else.
\<close>

record simple_board =
  sb_cols :: int
  sb_rows :: int
  sb_mines :: int
  sb_game_over :: bool
  sb_win :: bool
  sb_revealed :: "(int \<times> int) list"
  sb_flagged :: "(int \<times> int) list"
  sb_hint :: "(int \<times> int) option"

definition sb_neighbors :: "simple_board \<Rightarrow> int \<Rightarrow> int \<Rightarrow> (int \<times> int) list" where
  "sb_neighbors b c r =
     filter (\<lambda>(x, y). 0 \<le> x \<and> x < sb_cols b \<and> 0 \<le> y \<and> y < sb_rows b \<and> (x, y) \<noteq> (c, r))
       (concat (map (\<lambda>dy. map (\<lambda>dx. (c + dx, r + dy)) [- 1, 0, 1]) [- 1, 0, 1]))"

definition sb_toggle_flag :: "simple_board \<Rightarrow> int \<Rightarrow> int \<Rightarrow> simple_board" where
  "sb_toggle_flag b c r =
     (if (c, r) \<in> set (sb_flagged b) then b\<lparr>sb_flagged := removeAll (c, r) (sb_flagged b)\<rparr>
      else b\<lparr>sb_flagged := (c, r) # sb_flagged b\<rparr>)"

definition sb_reveal :: "simple_board \<Rightarrow> int \<Rightarrow> int \<Rightarrow> simple_board" where
  "sb_reveal b c r =
     b\<lparr>sb_revealed := (c, r) # sb_revealed b,
       sb_game_over := (sb_game_over b \<or> (r = 0 \<and> 0 \<le> c \<and> c < sb_mines b))\<rparr>"

text \<open>
  The display of the concrete runs. It reads each requested length as a signed number of
  32 bits, refuses a negative length with \<open>pygame.error\<close>, keeps the surface it has when
  a length is zero, and otherwise returns a surface of the requested size.
\<close>

definition c_int :: "int \<Rightarrow> int" where
  "c_int i = (i + 2147483648) mod 4294967296 - 2147483648"

definition window_set_mode :: "int \<times> int \<Rightarrow> int \<times> int \<Rightarrow> error + int \<times> int" where
  "window_set_mode current requested =
     (let w = c_int (fst requested); h = c_int (snd requested)
      in if w < 0 \<or> h < 0 then Inl PygameError
         else if w = 0 \<or> h = 0 then Inr current
         else Inr (w, h))"

definition simple_ops :: "simple_board board_ops" where
  "simple_ops =
     \<lparr>new_board = (\<lambda>c r m. \<lparr>sb_cols = c, sb_rows = r, sb_mines = m, sb_game_over = False,
                             sb_win = False, sb_revealed = [], sb_flagged = [], sb_hint = None\<rparr>),
      board_cols = sb_cols,
      board_rows = sb_rows,
      game_over = sb_game_over,
      win = sb_win,
      reveal = sb_reveal,
      toggle_flag = sb_toggle_flag,
      neighbors = sb_neighbors,
      is_revealed = (\<lambda>b c r. (c, r) \<in> set (sb_revealed b)),
      flagged_count = (\<lambda>b. int (length (sb_flagged b))),
      get_hint_coordinates = sb_hint,
      set_mode = window_set_mode\<rparr>"

text \<open>
  The module \<open>config\<close> with margins of 10 and 50 pixels, cells of 30 pixels, highlights of
  1500 milliseconds, pygame's numbers of the three mouse buttons, and the sizes that
  \<open>set_difficulty\<close> computes for 9 columns, 9 rows and 10 mines.
\<close>

definition easy_config :: config where
  "easy_config =
     \<lparr>margin_left = 10, margin_right = 10, margin_top = 50, margin_bottom = 10,
      cell_size = 30, cols = 9, rows = 9, num_mines = 10, width = 290, height = 330,
      display_dimension = (290, 330), highlight_duration_ms = 1500,
      mouse_left = 1, mouse_right = 3, mouse_middle = 2\<rparr>"

text \<open>The game as \<open>Game.__init__\<close>, lines 162 to 174, leaves it under \<open>easy_config\<close>.\<close>

definition easy_game :: "simple_board game" where
  "easy_game =
     \<lparr>cfg = easy_config, screen = display_dimension easy_config,
      board = new_board simple_ops (cols easy_config) (rows easy_config) (num_mines easy_config),
      highlight_targets = {}, highlight_until_ms = 0,
      started = False, start_ticks_ms = 0, end_ticks_ms = 0\<rparr>"

text \<open>
  The game after one primary click at time \<open>t\<close> on the cell \<open>(0, 0)\<close> of the fresh
  \<open>easy_game\<close>; a mine lies there.
\<close>

definition clicked_mine :: "int \<Rightarrow> simple_board game" where
  "clicked_mine t =
     easy_game\<lparr>board := reveal simple_ops (board easy_game) 0 0,
               started := True, start_ticks_ms := t\<rparr>"

text \<open>A frame during which every read of the clock gives \<open>t\<close>.\<close>

definition tk_at :: "int \<Rightarrow> ticks" where
  "tk_at t = \<lparr>tick_end = t, tick_expire = t, tick_elapsed = t, tick_cells = t\<rparr>"

subsection \<open>Sessions\<close>

text \<open>
  A session lasts until the board is replaced. The events that replace it are the keys
  \<open>R\<close>, \<open>1\<close>, \<open>2\<close> and \<open>3\<close>, which call \<open>reset\<close>; every other event stays in the session.
  Two games have the same clock when \<open>started\<close> and the two timestamps agree.
\<close>

fun in_session :: "event \<Rightarrow> bool" where
  "in_session (KEYDOWN K_r) = False"
| "in_session (KEYDOWN K_1) = False"
| "in_session (KEYDOWN K_2) = False"
| "in_session (KEYDOWN K_3) = False"
| "in_session e = True"

definition same_clock :: "'b game \<Rightarrow> 'b game \<Rightarrow> bool" where
  "same_clock g g' \<longleftrightarrow>
     started g' = started g \<and> start_ticks_ms g' = start_ticks_ms g
     \<and> end_ticks_ms g' = end_ticks_ms g"

section \<open>Properties\<close>

subsection \<open>Auxiliary facts\<close>

lemma int_div_less_iff:
  fixes a b n :: int
  assumes "0 < b"
  shows "a div b < n \<longleftrightarrow> a < n * b"
proof -
  define q where "q = a div b"
  define r where "r = a mod b"
  have a: "a = b * q + r" by (simp add: q_def r_def)
  have r: "0 \<le> r" "r < b" using assms by (simp_all add: r_def)
  have "q < n \<longleftrightarrow> b * q + r < b * n"
  proof
    assume "q < n"
    then have "b * (q + 1) \<le> b * n" using assms by (intro mult_left_mono) simp_all
    then have "b * q + b \<le> b * n" by (simp only: distrib_left mult_1_right)
    then show "b * q + r < b * n" using r by linarith
  next
    assume h: "b * q + r < b * n"
    show "q < n"
    proof (rule ccontr)
      assume "\<not> q < n"
      then have "b * n \<le> b * q" using assms by (intro mult_left_mono) simp_all
      then show False using h r by linarith
    qed
  qed
  then show ?thesis using a q_def by (metis mult.commute)
qed

lemma draw_state:
  "cfg (fst (draw ops tk g)) = cfg g" "board (fst (draw ops tk g)) = board g"
  "started (fst (draw ops tk g)) = started g"
  "start_ticks_ms (fst (draw ops tk g)) = start_ticks_ms g"
  "end_ticks_ms (fst (draw ops tk g)) = end_ticks_ms g"
  "highlight_until_ms (fst (draw ops tk g)) = highlight_until_ms g"
  by (simp_all add: draw_def Let_def)

lemma fst_draw:
  "fst (draw ops tk g) =
     (if tick_expire tk > highlight_until_ms g \<and> highlight_targets g \<noteq> {}
      then g\<lparr>highlight_targets := {}\<rparr> else g)"
  by (simp add: draw_def Let_def)

lemma run_step_eq:
  "run_step ops evs tk g =
     (case process_events ops evs g of
        Inl e \<Rightarrow> Inl e
      | Inr (False, g1) \<Rightarrow> Inr (False, g1, None)
      | Inr (True, g1) \<Rightarrow>
          Inr (True, fst (draw ops tk (end_check ops (tick_end tk) g1)),
               Some (snd (draw ops tk (end_check ops (tick_end tk) g1)))))"
  by (simp add: run_step_def Let_def split: sum.splits prod.splits bool.splits)

lemma handle_mouse_started:
  assumes "started g" and "handle_mouse ops now pos button g = Inr g'"
  shows "same_clock g g'"
  using assms
  by (auto simp: handle_mouse_def same_clock_def Let_def split: sum.splits prod.splits if_splits)

lemma handle_keydown_in_session:
  assumes "in_session (KEYDOWN k)" and "handle_keydown ops now k g = Inr g'"
  shows "same_clock g g'"
  using assms
  by (cases k) (auto simp: handle_keydown_def same_clock_def split: option.splits)

lemma process_events_started:
  assumes "\<forall>(e, n) \<in> set evs. in_session e" and "started g"
    and "process_events ops evs g = Inr (running, g')"
  shows "same_clock g g'"
  using assms
proof (induction ops evs g rule: process_events.induct)
  case (1 ops g)
  then show ?case by (simp add: same_clock_def)
next
  case (2 ops now evs g)
  then show ?case by (simp add: same_clock_def)
next
  case (3 ops k now evs g)
  from 3(4) obtain g1 where g1: "handle_keydown ops now k g = Inr g1"
    and rest: "process_events ops evs g1 = Inr (running, g')"
    by (auto split: sum.splits)
  from 3(2) have "in_session (KEYDOWN k)" by simp
  from this g1 have "same_clock g g1" by (rule handle_keydown_in_session)
  moreover from this 3 g1 rest have "same_clock g1 g'" by (simp add: same_clock_def)
  ultimately show ?case by (simp add: same_clock_def)
next
  case (4 ops pos button now evs g)
  from 4(4) obtain g1 where g1: "handle_mouse ops now pos button g = Inr g1"
    and rest: "process_events ops evs g1 = Inr (running, g')"
    by (auto split: sum.splits)
  from 4(3) g1 have "same_clock g g1" by (rule handle_mouse_started)
  moreover from this 4 g1 rest have "same_clock g1 g'" by (simp add: same_clock_def)
  ultimately show ?case by (simp add: same_clock_def)
next
  case (5 ops now evs g)
  then show ?case by simp
qed

lemma end_check_ended:
  "end_ticks_ms g \<noteq> 0 \<Longrightarrow> end_check ops t g = g"
  by (simp add: end_check_def end_condition_def)

lemma draw_same_clock: "same_clock g (fst (draw ops tk g))"
  by (simp add: same_clock_def draw_def Let_def)

lemma run_step_ended:
  assumes "\<forall>(e, n) \<in> set evs. in_session e" and "started g" and "end_ticks_ms g \<noteq> 0"
    and "run_step ops evs tk g = Inr (running, g', fr)"
  shows "same_clock g g'"
proof -
  from assms(4) obtain b g1 where pe: "process_events ops evs g = Inr (b, g1)"
    by (auto simp: run_step_def split: sum.splits)
  with assms have sc: "same_clock g g1" by (simp add: process_events_started)
  show ?thesis
  proof (cases b)
    case False
    with pe assms(4) have "g' = g1" by (simp add: run_step_def)
    with sc show ?thesis by simp
  next
    case True
    from sc assms(3) have "end_check ops (tick_end tk) g1 = g1"
      by (simp add: end_check_ended same_clock_def)
    with True pe assms(4) have "g' = fst (draw ops tk g1)"
      by (auto simp: run_step_def Let_def split: prod.splits)
    with sc draw_same_clock [of g1 ops tk] show ?thesis by (simp add: same_clock_def)
  qed
qed

lemma main_loop_ended:
  assumes "\<forall>(evs, tk) \<in> set ins. \<forall>(e, n) \<in> set evs. in_session e"
    and "started g" and "end_ticks_ms g \<noteq> 0"
    and "main_loop ops ins g = Inr (running, g')"
  shows "same_clock g g'"
  using assms
proof (induction ins arbitrary: g)
  case Nil
  then show ?case by (simp add: same_clock_def)
next
  case (Cons i ins)
  obtain evs tk where i: "i = (evs, tk)" by (cases i)
  from Cons.prems(4) i obtain b g1 fr where rs: "run_step ops evs tk g = Inr (b, g1, fr)"
    by (auto split: sum.splits)
  from Cons.prems i have ev: "\<forall>(e, n) \<in> set evs. in_session e" by simp
  from ev Cons.prems(2,3) rs have sc: "same_clock g g1" by (rule run_step_ended)
  show ?case
  proof (cases b)
    case False
    with rs i Cons.prems(4) have "g' = g1" by simp
    with sc show ?thesis by simp
  next
    case True
    with rs i Cons.prems(4) have "main_loop ops ins g1 = Inr (running, g')" by simp
    moreover from Cons.prems(1) have "\<forall>(evs, tk) \<in> set ins. \<forall>(e, n) \<in> set evs. in_session e"
      by simp
    moreover from sc Cons.prems(2,3) have "started g1" "end_ticks_ms g1 \<noteq> 0"
      by (simp_all add: same_clock_def)
    ultimately have "same_clock g1 g'" by (intro Cons.IH)
    with sc show ?thesis by (simp add: same_clock_def)
  qed
qed

lemma end_check_start:
  "started (end_check ops t g) = started g"
  "start_ticks_ms (end_check ops t g) = start_ticks_ms g"
  by (simp_all add: end_check_def)

lemma run_step_started:
  assumes "\<forall>(e, n) \<in> set evs. in_session e" and "started g"
    and "run_step ops evs tk g = Inr (running, g', fr)"
  shows "started g' \<and> start_ticks_ms g' = start_ticks_ms g"
proof -
  from assms(3) obtain b g1 where pe: "process_events ops evs g = Inr (b, g1)"
    by (auto simp: run_step_def split: sum.splits)
  with assms have sc: "same_clock g g1" by (simp add: process_events_started)
  show ?thesis
  proof (cases b)
    case False
    with pe assms(3) have "g' = g1" by (simp add: run_step_def)
    with sc assms(2) show ?thesis by (simp add: same_clock_def)
  next
    case True
    with pe assms(3) have "g' = fst (draw ops tk (end_check ops (tick_end tk) g1))"
      by (simp add: run_step_eq)
    with sc assms(2) show ?thesis
      by (simp add: same_clock_def draw_state end_check_start)
  qed
qed

lemma main_loop_started:
  assumes "\<forall>(evs, tk) \<in> set ins. \<forall>(e, n) \<in> set evs. in_session e"
    and "started g" and "main_loop ops ins g = Inr (running, g')"
  shows "started g' \<and> start_ticks_ms g' = start_ticks_ms g"
  using assms
proof (induction ins arbitrary: g)
  case Nil
  then show ?case by simp
next
  case (Cons i ins)
  obtain evs tk where i: "i = (evs, tk)" by (cases i)
  from Cons.prems(3) i obtain b g1 fr where rs: "run_step ops evs tk g = Inr (b, g1, fr)"
    by (auto split: sum.splits)
  from Cons.prems i have ev: "\<forall>(e, n) \<in> set evs. in_session e" by simp
  from ev Cons.prems(2) rs have st: "started g1 \<and> start_ticks_ms g1 = start_ticks_ms g"
    by (rule run_step_started)
  show ?case
  proof (cases b)
    case False
    with rs i Cons.prems(3) have "g' = g1" by simp
    with st show ?thesis by simp
  next
    case True
    with rs i Cons.prems(3) have "main_loop ops ins g1 = Inr (running, g')" by simp
    moreover from Cons.prems(1) have "\<forall>(evs, tk) \<in> set ins. \<forall>(e, n) \<in> set evs. in_session e"
      by simp
    moreover from st have "started g1" by simp
    ultimately have "started g' \<and> start_ticks_ms g' = start_ticks_ms g1" by (intro Cons.IH)
    with st show ?thesis by simp
  qed
qed

lemma set_difficulty_geometry:
  assumes "\<And>c r m. board_cols ops (new_board ops c r m) = c"
    and "\<And>c r m. board_rows ops (new_board ops c r m) = r"
    and "set_difficulty ops c r m g = Inr g'"
  shows "width (cfg g') = margin_left (cfg g') + cols (cfg g') * cell_size (cfg g') + margin_right (cfg g')"
    and "height (cfg g') = margin_top (cfg g') + rows (cfg g') * cell_size (cfg g') + margin_bottom (cfg g')"
    and "board_cols ops (board g') = cols (cfg g')"
    and "board_rows ops (board g') = rows (cfg g')"
    and "cell_size (cfg g') = cell_size (cfg g)"
  using assms by (auto simp: set_difficulty_def reset_def Let_def split: sum.splits)

text \<open>The definitions that a run on \<open>simple_ops\<close> and \<open>easy_game\<close> unfolds.\<close>

lemmas run_defs =
  simple_ops_def easy_game_def easy_config_def clicked_mine_def tk_at_def
  sb_reveal_def sb_toggle_flag_def sb_neighbors_def window_set_mode_def c_int_def
  pos_to_grid_def handle_mouse_def handle_keydown_def reset_def set_difficulty_def
  end_condition_def end_check_def elapsed_ms_def run_step_eq fst_draw Let_def

subsection \<open>Pixel positions and grid cells\<close>

text \<open>
  Claim C9. Whatever the pixel position, \<open>pos_to_grid\<close> returns either exactly
  \<open>(-1, -1)\<close> or a pair with the column inside \<open>0 \<le> col < board.cols\<close> and the row inside
  \<open>0 \<le> row < board.rows\<close>; it never returns a pair with one valid and one invalid
  component. So the column alone tells the two apart: where the column is \<open>-1\<close> the row is
  too, and \<open>handle_mouse\<close>, which tests only the column, returns with the game untouched.
  The call returns a pair whenever \<open>config.cell_size\<close> is not zero.
\<close>

theorem pos_to_grid_never_mixed:
  "(cell_size (cfg g) \<noteq> 0 \<longrightarrow> (\<exists>p. pos_to_grid ops g x y = Inr p)) \<and>
   (\<forall>c r. pos_to_grid ops g x y = Inr (c, r) \<longrightarrow>
      ((c = - 1 \<and> r = - 1) \<or>
       (0 \<le> c \<and> c < board_cols ops (board g) \<and> 0 \<le> r \<and> r < board_rows ops (board g))) \<and>
      (c = - 1 \<longrightarrow> r = - 1 \<and> handle_mouse ops now (x, y) button g = Inr g))"
  by (auto simp: pos_to_grid_def handle_mouse_def Let_def split: if_splits)

theorem pos_to_grid_never_mixed_witness:
  "cell_size (cfg easy_game) \<noteq> 0
   \<and> pos_to_grid simple_ops easy_game 5 100 = Inr (- 1, - 1)
   \<and> handle_mouse simple_ops 0 (5, 100) 1 easy_game = Inr easy_game"
proof -
  have h: "pos_to_grid simple_ops easy_game 5 100 = Inr (- 1, - 1)"
    by (simp add: run_defs)
  have "cell_size (cfg easy_game) \<noteq> 0"
    by (simp add: run_defs)
  with h pos_to_grid_never_mixed [where g = easy_game and ops = simple_ops and x = 5 and y = 100
      and now = 0 and button = 1] show ?thesis
    by simp
qed

text \<open>
  Claim C5. Let the playing field be the rectangle that starts at the left and top margins
  and extends over the columns and rows of the board, each cell \<open>config.cell_size\<close> wide
  and high, with \<open>config.cell_size\<close> positive. For every pixel position outside that
  rectangle \<open>pos_to_grid\<close> returns \<open>(-1, -1)\<close>. For every position inside it
  \<open>pos_to_grid\<close> returns the cell that the floor division gives, with
  \<open>0 \<le> col < columns\<close> and \<open>0 \<le> row < rows\<close>, when the window size in \<open>config\<close> is the
  one that \<open>set_difficulty\<close> derives from the margins and the difficulty, and the board
  has the columns and rows of that difficulty.
\<close>

theorem pos_to_grid_playing_field:
  assumes cs: "0 < cell_size (cfg g)"
  shows
    "(\<not> (margin_left (cfg g) \<le> x
          \<and> x < margin_left (cfg g) + board_cols ops (board g) * cell_size (cfg g)
          \<and> margin_top (cfg g) \<le> y
          \<and> y < margin_top (cfg g) + board_rows ops (board g) * cell_size (cfg g))
        \<longrightarrow> pos_to_grid ops g x y = Inr (- 1, - 1))
     \<and> (width (cfg g) = margin_left (cfg g) + cols (cfg g) * cell_size (cfg g) + margin_right (cfg g)
        \<and> height (cfg g) = margin_top (cfg g) + rows (cfg g) * cell_size (cfg g) + margin_bottom (cfg g)
        \<and> board_cols ops (board g) = cols (cfg g)
        \<and> board_rows ops (board g) = rows (cfg g)
        \<and> margin_left (cfg g) \<le> x
        \<and> x < margin_left (cfg g) + cols (cfg g) * cell_size (cfg g)
        \<and> margin_top (cfg g) \<le> y
        \<and> y < margin_top (cfg g) + rows (cfg g) * cell_size (cfg g)
        \<longrightarrow> (\<exists>c r. pos_to_grid ops g x y = Inr (c, r)
               \<and> 0 \<le> c \<and> c < cols (cfg g) \<and> 0 \<le> r \<and> r < rows (cfg g)
               \<and> c = (x - margin_left (cfg g)) div cell_size (cfg g)
               \<and> r = (y - margin_top (cfg g)) div cell_size (cfg g)))"
proof -
  have lt: "\<And>a n. (a div cell_size (cfg g) < n) = (a < n * cell_size (cfg g))"
    using cs by (rule int_div_less_iff)
  have ge: "\<And>a. (0 \<le> a div cell_size (cfg g)) = (0 \<le> a)"
    using cs by (rule pos_imp_zdiv_nonneg_iff)
  have nz: "cell_size (cfg g) \<noteq> 0" using cs by simp
  show ?thesis
    by (auto simp: pos_to_grid_def Let_def lt ge nz)
qed

theorem pos_to_grid_playing_field_witness:
  "0 < cell_size (cfg easy_game)
   \<and> width (cfg easy_game) = 10 + 9 * 30 + 10 \<and> height (cfg easy_game) = 50 + 9 * 30 + 10
   \<and> pos_to_grid simple_ops easy_game 100 100 = Inr (3, 1)
   \<and> pos_to_grid simple_ops easy_game 280 100 = Inr (- 1, - 1)"
  using pos_to_grid_playing_field [where g = easy_game and x = 100 and y = 100 and ops = simple_ops]
    pos_to_grid_playing_field [where g = easy_game and x = 280 and y = 100 and ops = simple_ops]
  by (simp add: simple_ops_def easy_game_def easy_config_def)

subsection \<open>Changing the difficulty\<close>




subsection \<open>Mouse clicks\<close>

text \<open>
  Claim C3. A click of the primary button on a position that \<open>pos_to_grid\<close> resolves to a
  cell \<open>(c, r)\<close> makes \<open>started\<close> true, sets the start timestamp to the current time if
  the game had not started and leaves it as it was otherwise, and hands \<open>reveal(c, r)\<close> to
  the board. Any later click of the primary button on a cell leaves the start timestamp
  unchanged and still hands its \<open>reveal\<close> to the board.
\<close>

theorem primary_click_starts_clock_once:
  assumes "pos_to_grid ops g x y = Inr (c, r)" and "c \<noteq> - 1"
  shows "\<exists>g1. handle_mouse ops now (x, y) (mouse_left (cfg g)) g = Inr g1
     \<and> started g1
     \<and> start_ticks_ms g1 = (if started g then start_ticks_ms g else now)
     \<and> board g1 = reveal ops (board g) c r
     \<and> (\<forall>ins evs ga gk x2 y2 c2 r2 now2.
          (\<forall>(evs', tk') \<in> set ins. \<forall>(e, n) \<in> set evs'. in_session e)
          \<and> main_loop ops ins g1 = Inr (True, ga)
          \<and> (\<forall>(e, n) \<in> set evs. in_session e)
          \<and> process_events ops evs ga = Inr (True, gk)
          \<and> pos_to_grid ops gk x2 y2 = Inr (c2, r2) \<and> c2 \<noteq> - 1 \<longrightarrow>
          (\<exists>g2. handle_mouse ops now2 (x2, y2) (mouse_left (cfg gk)) gk = Inr g2
             \<and> started g2
             \<and> start_ticks_ms g2 = start_ticks_ms g1
             \<and> board g2 = reveal ops (board gk) c2 r2))"
proof -
  define g1 where "g1 = g\<lparr>highlight_targets := {}, started := True,
      start_ticks_ms := (if started g then start_ticks_ms g else now),
      board := reveal ops (board g) c r\<rparr>"
  have first: "handle_mouse ops now (x, y) (mouse_left (cfg g)) g = Inr g1"
    using assms by (simp add: handle_mouse_def Let_def g1_def)
  have g1: "started g1" "start_ticks_ms g1 = (if started g then start_ticks_ms g else now)"
    "board g1 = reveal ops (board g) c r"
    by (simp_all add: g1_def)
  have later: "\<exists>g2. handle_mouse ops now2 (x2, y2) (mouse_left (cfg gk)) gk = Inr g2
      \<and> started g2 \<and> start_ticks_ms g2 = start_ticks_ms g1
      \<and> board g2 = reveal ops (board gk) c2 r2"
    if frames: "\<forall>(evs', tk') \<in> set ins. \<forall>(e, n) \<in> set evs'. in_session e"
      and loop: "main_loop ops ins g1 = Inr (True, ga)"
      and events: "\<forall>(e, n) \<in> set evs. in_session e"
      and pe: "process_events ops evs ga = Inr (True, gk)"
      and cell: "pos_to_grid ops gk x2 y2 = Inr (c2, r2)" "c2 \<noteq> - 1"
    for ins evs ga gk x2 y2 c2 r2 now2
  proof -
    from frames g1(1) loop have ga: "started ga \<and> start_ticks_ms ga = start_ticks_ms g1"
      by (rule main_loop_started)
    with events pe have "same_clock ga gk"
      by (intro process_events_started [of evs ga ops True gk]) simp_all
    with ga have gk: "started gk" "start_ticks_ms gk = start_ticks_ms g1"
      by (simp_all add: same_clock_def)
    with cell show ?thesis
      by (simp add: handle_mouse_def Let_def)
  qed
  from first g1 later show ?thesis by blast
qed

theorem primary_click_starts_clock_once_witness:
  "pos_to_grid simple_ops easy_game 100 100 = Inr (3, 1)
   \<and> (\<exists>g1. handle_mouse simple_ops 1000 (100, 100) 1 easy_game = Inr g1
        \<and> started g1 \<and> start_ticks_ms g1 = 1000
        \<and> main_loop simple_ops [([], tk_at 1200)] g1 = Inr (True, g1)
        \<and> process_events simple_ops [(KEYDOWN K_h, 1900)] g1 = Inr (True, g1)
        \<and> pos_to_grid simple_ops g1 40 60 = Inr (1, 0)
        \<and> (\<exists>g2. handle_mouse simple_ops 2000 (40, 60) 1 g1 = Inr g2
              \<and> start_ticks_ms g2 = 1000))"
proof -
  let ?ins = "[([], tk_at 1200)]"
  let ?evs = "[(KEYDOWN K_h, 1900)]"
  have h: "pos_to_grid simple_ops easy_game 100 100 = Inr (3, 1)"
    by (simp add: run_defs)
  have b: "mouse_left (cfg easy_game) = 1" "\<not> started easy_game"
    by (simp_all add: run_defs)
  from primary_click_starts_clock_once [OF h, where now = 1000] b
  have "\<exists>g1. handle_mouse simple_ops 1000 (100, 100) 1 easy_game = Inr g1
      \<and> started g1 \<and> start_ticks_ms g1 = 1000
      \<and> board g1 = reveal simple_ops (board easy_game) 3 1
      \<and> (\<forall>ins evs ga gk x2 y2 c2 r2 now2.
          (\<forall>(evs', tk') \<in> set ins. \<forall>(e, n) \<in> set evs'. in_session e)
          \<and> main_loop simple_ops ins g1 = Inr (True, ga)
          \<and> (\<forall>(e, n) \<in> set evs. in_session e)
          \<and> process_events simple_ops evs ga = Inr (True, gk)
          \<and> pos_to_grid simple_ops gk x2 y2 = Inr (c2, r2) \<and> c2 \<noteq> - 1 \<longrightarrow>
          (\<exists>g2. handle_mouse simple_ops now2 (x2, y2) (mouse_left (cfg gk)) gk = Inr g2
             \<and> started g2
             \<and> start_ticks_ms g2 = start_ticks_ms g1
             \<and> board g2 = reveal simple_ops (board gk) c2 r2))"
    by simp
  then obtain g1 where g1: "handle_mouse simple_ops 1000 (100, 100) 1 easy_game = Inr g1"
      "started g1" "start_ticks_ms g1 = 1000"
    and again: "\<forall>ins evs ga gk x2 y2 c2 r2 now2.
          (\<forall>(evs', tk') \<in> set ins. \<forall>(e, n) \<in> set evs'. in_session e)
          \<and> main_loop simple_ops ins g1 = Inr (True, ga)
          \<and> (\<forall>(e, n) \<in> set evs. in_session e)
          \<and> process_events simple_ops evs ga = Inr (True, gk)
          \<and> pos_to_grid simple_ops gk x2 y2 = Inr (c2, r2) \<and> c2 \<noteq> - 1 \<longrightarrow>
          (\<exists>g2. handle_mouse simple_ops now2 (x2, y2) (mouse_left (cfg gk)) gk = Inr g2
             \<and> started g2
             \<and> start_ticks_ms g2 = start_ticks_ms g1
             \<and> board g2 = reveal simple_ops (board gk) c2 r2)"
    by blast
  from g1(1) have loop: "main_loop simple_ops ?ins g1 = Inr (True, g1)"
    and pe: "process_events simple_ops ?evs g1 = Inr (True, g1)"
    and p: "pos_to_grid simple_ops g1 40 60 = Inr (1, 0)" "mouse_left (cfg g1) = 1"
    by (auto simp: run_defs)
  have s1: "\<forall>(evs', tk') \<in> set ?ins. \<forall>(e, n) \<in> set evs'. in_session e"
    and s2: "\<forall>(e, n) \<in> set ?evs. in_session e"
    and s3: "(1 :: int) \<noteq> - 1"
    by simp_all
  from again [rule_format, of "[([], tk_at 1200)]" g1 "[(KEYDOWN K_h, 1900)]" g1 40 60 1 0 2000]
    s1 loop s2 pe p(1) s3
  have "\<exists>g2. handle_mouse simple_ops 2000 (40, 60) (mouse_left (cfg g1)) g1 = Inr g2
      \<and> started g2 \<and> start_ticks_ms g2 = start_ticks_ms g1
      \<and> board g2 = reveal simple_ops (board g1) 1 0"
    by blast
  with p(2) g1(3)
  have "\<exists>g2. handle_mouse simple_ops 2000 (40, 60) 1 g1 = Inr g2 \<and> start_ticks_ms g2 = 1000"
    by auto
  with h g1 loop pe p(1) show ?thesis by blast
qed

text \<open>
  Claim C6. A click on a position that \<open>pos_to_grid\<close> resolves to \<open>(-1, -1)\<close> leaves the
  whole game as it was, the highlight set included. On a cell \<open>(c, r)\<close>, the primary button
  clears the highlight set, starts the clock if need be and then calls \<open>reveal(c, r)\<close>; the
  secondary button clears the highlight set and then calls \<open>toggle_flag(c, r)\<close>; the
  tertiary button does not clear anything first: it replaces the highlight set by the
  neighbours of \<open>(c, r)\<close> that are not revealed and sets the expiry to the current time
  plus \<open>config.highlight_duration_ms\<close>. The buttons are tested in this order, so the
  later branches are those of a button number different from the earlier ones.
\<close>

theorem handle_mouse_highlight_effects:
  "(pos_to_grid ops g x y = Inr (- 1, - 1) \<longrightarrow> handle_mouse ops now (x, y) button g = Inr g)
   \<and> (pos_to_grid ops g x y = Inr (c, r) \<and> c \<noteq> - 1 \<longrightarrow>
       (button = mouse_left (cfg g) \<longrightarrow>
          handle_mouse ops now (x, y) button g =
            Inr (g\<lparr>highlight_targets := {},
                   started := True,
                   start_ticks_ms := (if started g then start_ticks_ms g else now),
                   board := reveal ops (board g) c r\<rparr>))
     \<and> (button \<noteq> mouse_left (cfg g) \<and> button = mouse_right (cfg g) \<longrightarrow>
          handle_mouse ops now (x, y) button g =
            Inr (g\<lparr>highlight_targets := {}, board := toggle_flag ops (board g) c r\<rparr>))
     \<and> (button \<noteq> mouse_left (cfg g) \<and> button \<noteq> mouse_right (cfg g)
          \<and> button = mouse_middle (cfg g) \<longrightarrow>
          handle_mouse ops now (x, y) button g =
            Inr (g\<lparr>highlight_targets :=
                     {p \<in> set (neighbors ops (board g) c r).
                        \<not> is_revealed ops (board g) (fst p) (snd p)},
                   highlight_until_ms := now + highlight_duration_ms (cfg g)\<rparr>)))"
  by (auto simp: handle_mouse_def Let_def intro!: arg_cong [where f = "\<lambda>s. g\<lparr>highlight_targets := s, highlight_until_ms := _\<rparr>"])

theorem handle_mouse_highlight_effects_witness:
  "pos_to_grid simple_ops (easy_game\<lparr>highlight_targets := {(5, 5)}, highlight_until_ms := 900\<rparr>) 5 5
     = Inr (- 1, - 1)
   \<and> handle_mouse simple_ops 7 (5, 5) 1
       (easy_game\<lparr>highlight_targets := {(5, 5)}, highlight_until_ms := 900\<rparr>)
     = Inr (easy_game\<lparr>highlight_targets := {(5, 5)}, highlight_until_ms := 900\<rparr>)
   \<and> pos_to_grid simple_ops (easy_game\<lparr>highlight_targets := {(5, 5)}, highlight_until_ms := 900\<rparr>) 15 55
     = Inr (0, 0)
   \<and> handle_mouse simple_ops 7 (15, 55) 3
       (easy_game\<lparr>highlight_targets := {(5, 5)}, highlight_until_ms := 900\<rparr>)
     = Inr (easy_game\<lparr>highlight_targets := {}, highlight_until_ms := 900,
                      board := toggle_flag simple_ops (board easy_game) 0 0\<rparr>)
   \<and> handle_mouse simple_ops 7 (15, 55) 2
       (easy_game\<lparr>highlight_targets := {(5, 5)}, highlight_until_ms := 900\<rparr>)
     = Inr (easy_game\<lparr>highlight_targets := {(1, 0), (0, 1), (1, 1)},
                      highlight_until_ms := 1507\<rparr>)"
proof -
  let ?g = "easy_game\<lparr>highlight_targets := {(5, 5)}, highlight_until_ms := 900\<rparr>"
  have out: "pos_to_grid simple_ops ?g 5 5 = Inr (- 1, - 1)"
    and inside: "pos_to_grid simple_ops ?g 15 55 = Inr (0, 0)"
    by (simp_all add: run_defs)
  have buttons: "mouse_left (cfg ?g) = 1" "mouse_right (cfg ?g) = 3" "mouse_middle (cfg ?g) = 2"
    "highlight_duration_ms (cfg ?g) = 1500"
    by (simp_all add: easy_game_def easy_config_def)
  have nbs: "{p \<in> set (neighbors simple_ops (board ?g) 0 0).
               \<not> is_revealed simple_ops (board ?g) (fst p) (snd p)} = {(1, 0), (0, 1), (1, 1)}"
    by (auto simp: simple_ops_def easy_game_def easy_config_def sb_neighbors_def)
  from handle_mouse_highlight_effects
         [where ops = simple_ops and g = ?g and x = 5 and y = 5 and now = 7 and button = 1] out
  have 1: "handle_mouse simple_ops 7 (5, 5) 1 ?g = Inr ?g"
    by simp
  from handle_mouse_highlight_effects
         [where ops = simple_ops and g = ?g and x = 15 and y = 55 and c = 0 and r = 0
            and now = 7 and button = 3] inside buttons
  have 2: "handle_mouse simple_ops 7 (15, 55) 3 ?g =
      Inr (?g\<lparr>highlight_targets := {}, board := toggle_flag simple_ops (board ?g) 0 0\<rparr>)"
    by simp
  from handle_mouse_highlight_effects
         [where ops = simple_ops and g = ?g and x = 15 and y = 55 and c = 0 and r = 0
            and now = 7 and button = 2] inside buttons nbs
  have 3: "handle_mouse simple_ops 7 (15, 55) 2 ?g =
      Inr (?g\<lparr>highlight_targets := {(1, 0), (0, 1), (1, 1)}, highlight_until_ms := 1507\<rparr>)"
    by simp
  from out inside 1 2 3 show ?thesis by simp
qed

text \<open>
  Claim C10. A click of the tertiary button, whose number differs from those of the primary
  and the secondary button, returns whenever \<open>config.cell_size\<close> is not zero, and leaves
  \<open>started\<close>, the start timestamp, the end timestamp, the board and \<open>config\<close> as they
  were. In particular it does not start the timer of a game that has not started.
\<close>

theorem middle_click_frame:
  assumes "button = mouse_middle (cfg g)" and "button \<noteq> mouse_left (cfg g)"
    and "button \<noteq> mouse_right (cfg g)"
  shows "(cell_size (cfg g) \<noteq> 0 \<longrightarrow> (\<exists>g'. handle_mouse ops now pos button g = Inr g'))
     \<and> (\<forall>g'. handle_mouse ops now pos button g = Inr g' \<longrightarrow>
          started g' = started g \<and> start_ticks_ms g' = start_ticks_ms g
          \<and> end_ticks_ms g' = end_ticks_ms g \<and> board g' = board g \<and> cfg g' = cfg g)"
  using assms
  by (auto simp: handle_mouse_def pos_to_grid_def Let_def split: sum.splits if_splits)

theorem middle_click_frame_witness:
  "(2 :: int) = mouse_middle (cfg easy_game) \<and> (2 :: int) \<noteq> mouse_left (cfg easy_game)
   \<and> (2 :: int) \<noteq> mouse_right (cfg easy_game)
   \<and> handle_mouse simple_ops 7 (15, 55) 2 easy_game =
       Inr (easy_game\<lparr>highlight_targets := {(1, 0), (0, 1), (1, 1)}, highlight_until_ms := 1507\<rparr>)
   \<and> started (easy_game\<lparr>highlight_targets := {(1, 0), (0, 1), (1, 1)},
                        highlight_until_ms := 1507\<rparr>) = started easy_game
   \<and> board (easy_game\<lparr>highlight_targets := {(1, 0), (0, 1), (1, 1)},
                      highlight_until_ms := 1507\<rparr>) = board easy_game"
proof -
  let ?g' = "easy_game\<lparr>highlight_targets := {(1, 0), (0, 1), (1, 1)}, highlight_until_ms := 1507\<rparr>"
  have b: "(2 :: int) = mouse_middle (cfg easy_game)" "(2 :: int) \<noteq> mouse_left (cfg easy_game)"
    "(2 :: int) \<noteq> mouse_right (cfg easy_game)"
    by (simp_all add: easy_game_def easy_config_def)
  have click: "handle_mouse simple_ops 7 (15, 55) 2 easy_game = Inr ?g'"
    by (simp add: run_defs insert_commute)
  from middle_click_frame [OF b, where ops = simple_ops and now = 7 and pos = "(15, 55)"]
  have "\<forall>g'. handle_mouse simple_ops 7 (15, 55) 2 easy_game = Inr g' \<longrightarrow>
          started g' = started easy_game \<and> start_ticks_ms g' = start_ticks_ms easy_game
          \<and> end_ticks_ms g' = end_ticks_ms easy_game \<and> board g' = board easy_game
          \<and> cfg g' = cfg easy_game"
    by (rule conjunct2)
  then have "started ?g' = started easy_game \<and> board ?g' = board easy_game"
    using click by blast
  with b click show ?thesis by blast
qed

subsection \<open>The hint key\<close>

text \<open>
  Claim C7. When the key \<open>H\<close> is pressed and \<open>get_hint_coordinates()\<close> returns \<open>None\<close>, the
  call returns with the game as it was, so the highlight set and its expiry keep their
  values. When a
  coordinate is returned, the highlight set becomes the set of that one coordinate and the
  expiry becomes the current time plus \<open>config.highlight_duration_ms\<close>.
\<close>

theorem hint_key_highlight:
  "(get_hint_coordinates ops (board g) = None \<longrightarrow>
      handle_keydown ops now K_h g = Inr g
      \<and> process_events ops [(KEYDOWN K_h, now)] g = Inr (True, g))
   \<and> (get_hint_coordinates ops (board g) = Some p \<longrightarrow>
      handle_keydown ops now K_h g =
        Inr (g\<lparr>highlight_targets := {p},
               highlight_until_ms := now + highlight_duration_ms (cfg g)\<rparr>)
      \<and> process_events ops [(KEYDOWN K_h, now)] g =
        Inr (True, g\<lparr>highlight_targets := {p},
                      highlight_until_ms := now + highlight_duration_ms (cfg g)\<rparr>))"
  by (simp add: handle_keydown_def)

theorem hint_key_highlight_witness:
  "get_hint_coordinates simple_ops (board easy_game) = None
   \<and> handle_keydown simple_ops 10 K_h
       (easy_game\<lparr>highlight_targets := {(5, 5)}, highlight_until_ms := 900\<rparr>)
     = Inr (easy_game\<lparr>highlight_targets := {(5, 5)}, highlight_until_ms := 900\<rparr>)
   \<and> get_hint_coordinates simple_ops (board easy_game\<lparr>sb_hint := Some (2, 3)\<rparr>) = Some (2, 3)
   \<and> handle_keydown simple_ops 10 K_h
       (easy_game\<lparr>board := board easy_game\<lparr>sb_hint := Some (2, 3)\<rparr>,
                  highlight_targets := {(5, 5)}, highlight_until_ms := 900\<rparr>)
     = Inr (easy_game\<lparr>board := board easy_game\<lparr>sb_hint := Some (2, 3)\<rparr>,
                      highlight_targets := {(2, 3)}, highlight_until_ms := 1510\<rparr>)"
  using hint_key_highlight [where ops = simple_ops and now = 10
          and g = "easy_game\<lparr>highlight_targets := {(5, 5)}, highlight_until_ms := 900\<rparr>"]
    hint_key_highlight [where ops = simple_ops and now = 10 and p = "(2, 3)"
          and g = "easy_game\<lparr>board := board easy_game\<lparr>sb_hint := Some (2, 3)\<rparr>,
                  highlight_targets := {(5, 5)}, highlight_until_ms := 900\<rparr>"]
  by (simp add: simple_ops_def easy_game_def easy_config_def)

subsection \<open>The frame\<close>

text \<open>
  Claim C8. In every frame the remaining-mine count handed to \<open>draw_header\<close> is
  \<open>config.num_mines - board.flagged_count()\<close>, raised to 0 where that is negative: it is
  never negative, and it is 0 when there are more flags than mines. This holds for
  \<open>draw\<close> in any state and for the frame of any \<open>run_step\<close> that draws one.
\<close>

theorem remaining_mines_clamped:
  "remaining_mines (snd (draw ops tk g)) = max 0 (num_mines (cfg g) - flagged_count ops (board g))
   \<and> 0 \<le> remaining_mines (snd (draw ops tk g))
   \<and> (num_mines (cfg g) < flagged_count ops (board g) \<longrightarrow> remaining_mines (snd (draw ops tk g)) = 0)
   \<and> (\<forall>g' fr. run_step ops evs tk g = Inr (True, g', Some fr) \<longrightarrow>
        remaining_mines fr = max 0 (num_mines (cfg g') - flagged_count ops (board g')))"
  by (auto simp: draw_def Let_def run_step_def end_check_def split: sum.splits bool.splits prod.splits if_splits)

theorem remaining_mines_clamped_witness:
  "num_mines (cfg easy_game)
     < flagged_count simple_ops (board easy_game\<lparr>sb_flagged :=
         [(0, 1), (1, 1), (2, 1), (3, 1), (4, 1), (5, 1), (6, 1), (7, 1), (8, 1), (0, 2), (1, 2)]\<rparr>)
   \<and> remaining_mines (snd (draw simple_ops (tk_at 0)
       (easy_game\<lparr>board := board easy_game\<lparr>sb_flagged :=
         [(0, 1), (1, 1), (2, 1), (3, 1), (4, 1), (5, 1), (6, 1), (7, 1), (8, 1), (0, 2), (1, 2)]\<rparr>\<rparr>))) = 0
   \<and> remaining_mines (snd (draw simple_ops (tk_at 0)
       (easy_game\<lparr>board := board easy_game\<lparr>sb_flagged := [(0, 1), (1, 1), (2, 1)]\<rparr>\<rparr>))) = 7"
  using remaining_mines_clamped [where ops = simple_ops and tk = "tk_at 0" and evs = "[]"
          and g = "easy_game\<lparr>board := board easy_game\<lparr>sb_flagged :=
         [(0, 1), (1, 1), (2, 1), (3, 1), (4, 1), (5, 1), (6, 1), (7, 1), (8, 1), (0, 2), (1, 2)]\<rparr>\<rparr>"]
    remaining_mines_clamped [where ops = simple_ops and tk = "tk_at 0" and evs = "[]"
          and g = "easy_game\<lparr>board := board easy_game\<lparr>sb_flagged := [(0, 1), (1, 1), (2, 1)]\<rparr>\<rparr>"]
  by (simp add: simple_ops_def easy_game_def easy_config_def)

text \<open>
  Claim C4. When \<open>draw\<close> reads the clock after the expiry \<open>highlight_until_ms\<close>, be it the
  read of line 226 or the read of line 242, no cell is drawn highlighted, whatever the
  highlight set holds and whether or not the set was emptied; \<open>draw\<close> leaves the expiry as
  it was, so the same is true of every later frame until an event sets a new expiry.
\<close>

theorem expired_highlight_not_drawn:
  assumes "highlight_until_ms g < tick_cells tk \<or> highlight_until_ms g < tick_expire tk"
  shows "(\<forall>(c, r, h) \<in> set (cells_drawn (snd (draw ops tk g))). \<not> h)
     \<and> highlight_until_ms (fst (draw ops tk g)) = highlight_until_ms g"
  using assms by (auto simp: draw_def Let_def)

theorem expired_highlight_not_drawn_witness:
  "highlight_until_ms (easy_game\<lparr>highlight_targets := {(1, 0), (1, 1)}, highlight_until_ms := 1500\<rparr>)
     < tick_cells (tk_at 1501)
   \<and> (1, 0, True) \<notin> set (cells_drawn (snd (draw simple_ops (tk_at 1501)
         (easy_game\<lparr>highlight_targets := {(1, 0), (1, 1)}, highlight_until_ms := 1500\<rparr>))))
   \<and> (1, 0, True) \<in> set (cells_drawn (snd (draw simple_ops (tk_at 1500)
         (easy_game\<lparr>highlight_targets := {(1, 0), (1, 1)}, highlight_until_ms := 1500\<rparr>))))"
proof -
  let ?g = "easy_game\<lparr>highlight_targets := {(1, 0), (1, 1)}, highlight_until_ms := 1500\<rparr>"
  have h: "highlight_until_ms ?g < tick_cells (tk_at 1501)"
    by (simp add: tk_at_def)
  have shown: "(1, 0, True) \<in> set (cells_drawn (snd (draw simple_ops (tk_at 1500) ?g)))"
    by (simp add: draw_def Let_def tk_at_def simple_ops_def easy_game_def easy_config_def)
      (rule bexI [where x = 0], simp_all)
  have none: "\<forall>(c, r, h) \<in> set (cells_drawn (snd (draw simple_ops (tk_at 1501) ?g))). \<not> h"
    by (rule expired_highlight_not_drawn [OF disjI1 [OF h], THEN conjunct1])
  have hidden: "(1, 0, True) \<notin> set (cells_drawn (snd (draw simple_ops (tk_at 1501) ?g)))"
  proof
    assume "(1, 0, True) \<in> set (cells_drawn (snd (draw simple_ops (tk_at 1501) ?g)))"
    with none have "case (1 :: int, 0 :: int, True) of (c, r, h) \<Rightarrow> \<not> h"
      by (rule bspec)
    then show False by simp
  qed
  from h hidden shown show ?thesis by blast
qed

subsection \<open>The end of a game\<close>

text \<open>
  The freeze where the clock is not 0. Take a frame in which, after the events, the
  condition of line 276 holds (the board reports \<open>game_over\<close> or \<open>win\<close>, the game has
  started and \<open>end_ticks_ms\<close> is 0) and in which the clock read on line 277 is not 0. That
  frame sets the end timestamp to the clock reading and shows the elapsed time of that
  instant, the end timestamp minus the start timestamp. Through all later frames of the
  session, whatever their events and clock readings are, the end timestamp keeps that
  value, the condition of line 276 never holds again, the end check changes nothing, and
  every query of the elapsed time returns the value of that instant.
\<close>

theorem end_time_frozen:
  assumes events: "process_events ops evs g = Inr (True, gm)"
    and fires: "end_condition ops gm"
    and nonzero: "tick_end tk \<noteq> 0"
    and later: "\<forall>(evs', tk') \<in> set ins. \<forall>(e, n) \<in> set evs'. in_session e"
  shows "\<exists>g1 fr. run_step ops evs tk g = Inr (True, g1, Some fr)
      \<and> end_ticks_ms g1 = tick_end tk
      \<and> time_text fr = format_time (tick_end tk - start_ticks_ms gm)
      \<and> (\<forall>running g2. main_loop ops ins g1 = Inr (running, g2) \<longrightarrow>
            end_ticks_ms g2 = tick_end tk
            \<and> \<not> end_condition ops g2
            \<and> (\<forall>now. end_check ops now g2 = g2)
            \<and> (\<forall>now. elapsed_ms now g2 = tick_end tk - start_ticks_ms gm))"
proof -
  define g0 where "g0 = end_check ops (tick_end tk) gm"
  define g1 where "g1 = fst (draw ops tk g0)"
  define fr where "fr = snd (draw ops tk g0)"
  have g0: "started g0" "end_ticks_ms g0 = tick_end tk" "start_ticks_ms g0 = start_ticks_ms gm"
    using fires by (simp_all add: g0_def end_check_def end_condition_def)
  have g1: "started g1" "end_ticks_ms g1 = tick_end tk" "start_ticks_ms g1 = start_ticks_ms gm"
    using g0 draw_same_clock [of g0 ops tk] by (simp_all add: g1_def same_clock_def)
  have run: "run_step ops evs tk g = Inr (True, g1, Some fr)"
    using events by (simp add: run_step_def g0_def g1_def fr_def Let_def split: prod.splits)
  have shown: "time_text fr = format_time (tick_end tk - start_ticks_ms gm)"
    using g0 nonzero by (simp add: fr_def draw_def Let_def elapsed_ms_def)
  have rest: "end_ticks_ms g2 = tick_end tk \<and> \<not> end_condition ops g2
      \<and> (\<forall>now. end_check ops now g2 = g2)
      \<and> (\<forall>now. elapsed_ms now g2 = tick_end tk - start_ticks_ms gm)"
    if "main_loop ops ins g1 = Inr (running, g2)" for running g2
  proof -
    from later g1(1) g1(2) nonzero that have "same_clock g1 g2"
      by (intro main_loop_ended [of ins g1 ops running g2]) simp_all
    with g1 nonzero show ?thesis
      by (simp add: same_clock_def end_condition_def end_check_def elapsed_ms_def)
  qed
  from run g1(2) shown rest show ?thesis by blast
qed

theorem end_time_frozen_witness:
  "process_events simple_ops [(MOUSEBUTTONDOWN (15, 55) 1, 1000)] easy_game
     = Inr (True, clicked_mine 1000)
   \<and> end_condition simple_ops (clicked_mine 1000)
   \<and> tick_end (tk_at 4000) \<noteq> 0
   \<and> in_session (KEYDOWN K_h) \<and> in_session (MOUSEBUTTONDOWN (100, 100) 1)
   \<and> (\<exists>g1 fr. run_step simple_ops [(MOUSEBUTTONDOWN (15, 55) 1, 1000)] (tk_at 4000) easy_game
                  = Inr (True, g1, Some fr)
         \<and> end_ticks_ms g1 = 4000
         \<and> time_text fr = ''00:03 (3s)''
         \<and> (\<exists>g2. main_loop simple_ops
                     [([(KEYDOWN K_h, 5000), (MOUSEBUTTONDOWN (100, 100) 1, 5500)], tk_at 6000),
                      ([], tk_at 9000)] g1 = Inr (True, g2)
               \<and> end_ticks_ms g2 = 4000
               \<and> elapsed_ms 123456 g2 = 3000))"
proof -
  let ?evs = "[(MOUSEBUTTONDOWN (15, 55) 1, 1000)]"
  let ?ins = "[([(KEYDOWN K_h, 5000), (MOUSEBUTTONDOWN (100, 100) 1, 5500)], tk_at 6000),
               ([], tk_at 9000)]"
  have events: "process_events simple_ops ?evs easy_game = Inr (True, clicked_mine 1000)"
    by (simp add: run_defs)
  have fires: "end_condition simple_ops (clicked_mine 1000)"
    by (simp add: run_defs)
  have nonzero: "tick_end (tk_at 4000) \<noteq> 0"
    by (simp add: tk_at_def)
  have later: "\<forall>(evs', tk') \<in> set ?ins. \<forall>(e, n) \<in> set evs'. in_session e"
    by simp
  have start: "start_ticks_ms (clicked_mine 1000) = 1000" "tick_end (tk_at 4000) = 4000"
    by (simp_all add: clicked_mine_def tk_at_def)
  have fmt: "format_time 3000 = ''00:03 (3s)''"
    by (simp add: format_time_def fmt_02d_def str_int_def str_nat.simps)
  from end_time_frozen [OF events fires nonzero later]
  obtain g1 fr where run: "run_step simple_ops ?evs (tk_at 4000) easy_game = Inr (True, g1, Some fr)"
    and g1: "end_ticks_ms g1 = tick_end (tk_at 4000)"
      "time_text fr = format_time (tick_end (tk_at 4000) - start_ticks_ms (clicked_mine 1000))"
    and rest: "\<forall>running g2. main_loop simple_ops ?ins g1 = Inr (running, g2) \<longrightarrow>
        end_ticks_ms g2 = tick_end (tk_at 4000)
        \<and> \<not> end_condition simple_ops g2
        \<and> (\<forall>now. end_check simple_ops now g2 = g2)
        \<and> (\<forall>now. elapsed_ms now g2 = tick_end (tk_at 4000) - start_ticks_ms (clicked_mine 1000))"
    by blast
  from run have g1_eq: "g1 = (clicked_mine 1000)\<lparr>end_ticks_ms := 4000\<rparr>"
    by (simp add: run_defs)
  have "\<exists>g2. main_loop simple_ops ?ins ((clicked_mine 1000)\<lparr>end_ticks_ms := 4000\<rparr>) = Inr (True, g2)"
    by (simp add: run_defs)
  with g1_eq obtain g2 where loop: "main_loop simple_ops ?ins g1 = Inr (True, g2)"
    by blast
  from rest loop have "end_ticks_ms g2 = tick_end (tk_at 4000)"
    and "elapsed_ms 123456 g2 = tick_end (tk_at 4000) - start_ticks_ms (clicked_mine 1000)"
    by blast+
  then have "end_ticks_ms g2 = 4000" "elapsed_ms 123456 g2 = 3000"
    using start by simp_all
  with events fires nonzero run g1 start fmt loop show ?thesis
    by (intro conjI exI [where x = g1] exI [where x = fr] exI [where x = g2]) simp_all
qed

text \<open>
  Claim C1. Once the end timestamp is set it is set at most once, every later query of the
  elapsed time returns the value of that instant, and the end check of lines 276 and 277
  fires at most once in a session. The guard \<open>not self.end_ticks_ms\<close> and the docstring of
  \<open>_elapsed_ms\<close> (the time stops when the game ends) say the same, but the code keeps no
  flag for the end as it keeps \<open>started\<close> for the start: 0 in \<open>end_ticks_ms\<close> stands for
  an absent end timestamp, so the code does not do this when the clock reads 0 on line
  277. On \<open>easy_game\<close>, a primary click at time 0 on a mine, followed by the end check at
  time 0 in the same frame, leaves \<open>end_ticks_ms\<close> at 0: the elapsed time still follows
  the clock (0 when asked at time 0, 5000 when asked at time 5000), the condition of line
  276 holds again in the next frame, and that frame sets the end timestamp a second time,
  to 7000.
\<close>

theorem end_check_fires_again_at_tick_zero:
  "main_loop simple_ops [([(MOUSEBUTTONDOWN (15, 55) 1, 0)], tk_at 0)] easy_game
     = Inr (True, clicked_mine 0)
   \<and> end_condition simple_ops (clicked_mine 0)
   \<and> end_check simple_ops 0 (clicked_mine 0) = clicked_mine 0
   \<and> elapsed_ms 0 (end_check simple_ops 0 (clicked_mine 0)) = 0
   \<and> elapsed_ms 5000 (end_check simple_ops 0 (clicked_mine 0)) = 5000
   \<and> end_condition simple_ops (end_check simple_ops 0 (clicked_mine 0))
   \<and> main_loop simple_ops [([(MOUSEBUTTONDOWN (15, 55) 1, 0)], tk_at 0), ([], tk_at 7000)] easy_game
     = Inr (True, (clicked_mine 0)\<lparr>end_ticks_ms := 7000\<rparr>)"
  by (simp add: run_defs)

end
